theory Spec2Isabelle
  imports Complex_Main
begin

section \<open>Model predictive control: horizon constants and decision-vector layout\<close>

text \<open>
  The C++ type \<open>double\<close> is modelled by \<open>real\<close>: every statement below is about
  the exact arithmetic the code denotes, not about its rounding. Vectors
  (\<open>std::vector<double>\<close>, \<open>Eigen::VectorXd\<close>, CppAD vectors) are \<open>real list\<close>s,
  and \<open>size_t\<close> indices are natural numbers (no index below comes near the word size).
\<close>

text \<open>Timestep count and duration, reference velocity (MPC.cpp), and \<open>Lf\<close> (MPC.h).\<close>

definition N :: nat where
  "N = 8"

definition dt :: real where
  "dt = 1 / 10"

definition ref_v :: real where
  "ref_v = 50"

definition Lf :: real where
  "Lf = 267 / 100"

text \<open>Start offsets of each variable kind in the single decision vector.\<close>

definition x_start :: nat where
  "x_start = 0"

definition y_start :: nat where
  "y_start = x_start + N"

definition psi_start :: nat where
  "psi_start = y_start + N"

definition v_start :: nat where
  "v_start = psi_start + N"

definition cte_start :: nat where
  "cte_start = v_start + N"

definition epsi_start :: nat where
  "epsi_start = cte_start + N"

definition delta_start :: nat where
  "delta_start = epsi_start + N"

definition a_start :: nat where
  "a_start = delta_start + N - 1"

text \<open>Sizes computed at the top of \<open>MPC::Solve\<close>.\<close>

definition n_vars :: nat where
  "n_vars = N * 6 + (N - 1) * 2"

definition n_constraints :: nat where
  "n_constraints = N * 6"

section \<open>The objective and constraint evaluator \<open>FG_eval::operator()\<close>\<close>

text \<open>
  A counted loop \<open>for (t = lo; t < hi; ++t) body\<close> over a state that the body updates.
\<close>

definition for_loop :: "nat \<Rightarrow> nat \<Rightarrow> (nat \<Rightarrow> 's \<Rightarrow> 's) \<Rightarrow> 's \<Rightarrow> 's" where
  "for_loop lo hi body s = fold body [lo..<hi] s"

text \<open>The three cost loops; each statement adds one weighted square to \<open>fg[0]\<close>.\<close>

definition cost_state_body :: "real list \<Rightarrow> real list \<Rightarrow> nat \<Rightarrow> real list \<Rightarrow> real list" where
  "cost_state_body weights vars t fg =
     (let fg = fg[0 := fg ! 0 + weights ! 0 * (vars ! (cte_start + t))\<^sup>2];
          fg = fg[0 := fg ! 0 + weights ! 1 * (vars ! (epsi_start + t))\<^sup>2];
          fg = fg[0 := fg ! 0 + weights ! 2 * (vars ! (v_start + t) - ref_v)\<^sup>2]
      in fg)"

definition cost_actuator_body :: "real list \<Rightarrow> real list \<Rightarrow> nat \<Rightarrow> real list \<Rightarrow> real list" where
  "cost_actuator_body weights vars t fg =
     (let fg = fg[0 := fg ! 0 + weights ! 3 * (vars ! (delta_start + t))\<^sup>2];
          fg = fg[0 := fg ! 0 + weights ! 4 * (vars ! (a_start + t))\<^sup>2]
      in fg)"

definition cost_gap_body :: "real list \<Rightarrow> real list \<Rightarrow> nat \<Rightarrow> real list \<Rightarrow> real list" where
  "cost_gap_body weights vars t fg =
     (let fg = fg[0 := fg ! 0 + weights ! 5 *
                 (vars ! (delta_start + t + 1) - vars ! (delta_start + t))\<^sup>2];
          fg = fg[0 := fg ! 0 + weights ! 6 *
                 (vars ! (a_start + t + 1) - vars ! (a_start + t))\<^sup>2]
      in fg)"

text \<open>The body of the model-constraint loop, for one step \<open>t\<close> with \<open>1 \<le> t < N\<close>.\<close>

definition constraint_body :: "real list \<Rightarrow> real list \<Rightarrow> nat \<Rightarrow> real list \<Rightarrow> real list" where
  "constraint_body coeffs vars t fg =
     (let x1 = vars ! (x_start + t);
          y1 = vars ! (y_start + t);
          psi1 = vars ! (psi_start + t);
          v1 = vars ! (v_start + t);
          cte1 = vars ! (cte_start + t);
          epsi1 = vars ! (epsi_start + t);
          x0 = vars ! (x_start + t - 1);
          y0 = vars ! (y_start + t - 1);
          psi0 = vars ! (psi_start + t - 1);
          v0 = vars ! (v_start + t - 1);
          cte0 = vars ! (cte_start + t - 1);
          epsi0 = vars ! (epsi_start + t - 1);
          delta0 = vars ! (delta_start + t - 1);
          a0 = vars ! (a_start + t - 1);
          f0 = coeffs ! 0 + coeffs ! 1 * x0 + coeffs ! 2 * x0 * x0 + coeffs ! 3 * x0 * x0 * x0;
          psides0 = arctan (1 * coeffs ! 1 + 2 * coeffs ! 2 * x0 + 3 * coeffs ! 3 * x0 * x0);
          fg = fg[1 + x_start + t := x1 - (x0 + v0 * cos psi0 * dt)];
          fg = fg[1 + y_start + t := y1 - (y0 + v0 * sin psi0 * dt)];
          fg = fg[1 + psi_start + t := psi1 - (psi0 + v0 * delta0 / Lf * dt)];
          fg = fg[1 + v_start + t := v1 - (v0 + a0 * dt)];
          fg = fg[1 + cte_start + t := cte1 - ((f0 - y0) + (v0 * sin epsi0 * dt))];
          fg = fg[1 + epsi_start + t := epsi1 - ((psi0 - psides0) + v0 * delta0 / Lf * dt)]
      in fg)"

text \<open>
  \<open>FG_eval::operator()(fg, vars)\<close> with the object's fields \<open>coeffs\<close> and \<open>weights\<close>
  as arguments. The vector \<open>fg\<close> is passed by reference; the model returns it updated.
\<close>

definition FG_eval :: "real list \<Rightarrow> real list \<Rightarrow> real list \<Rightarrow> real list \<Rightarrow> real list" where
  "FG_eval coeffs weights fg vars =
     (let fg = fg[0 := 0];
          fg = for_loop 0 N (cost_state_body weights vars) fg;
          fg = for_loop 0 (N - 1) (cost_actuator_body weights vars) fg;
          fg = for_loop 0 (N - 2) (cost_gap_body weights vars) fg;
          fg = fg[1 + x_start := vars ! x_start];
          fg = fg[1 + y_start := vars ! y_start];
          fg = fg[1 + psi_start := vars ! psi_start];
          fg = fg[1 + v_start := vars ! v_start];
          fg = fg[1 + cte_start := vars ! cte_start];
          fg = fg[1 + epsi_start := vars ! epsi_start];
          fg = for_loop 1 N (constraint_body coeffs vars) fg
      in fg)"

section \<open>The solver adapter \<open>MPC::Solve\<close>\<close>

text \<open>
  Storage that C++ allocates without initialising it (\<open>Dvector v(n)\<close>,
  \<open>Eigen::VectorXd v(n)\<close>, \<open>Eigen::MatrixXd A(r, c)\<close>) holds arbitrary values:
  the function \<open>g\<close> gives the value found in each cell.
\<close>

definition uninit :: "(nat \<Rightarrow> real) \<Rightarrow> nat \<Rightarrow> real list" where
  "uninit g n = map g [0..<n]"

text \<open>
  Modelled from the spec: the status enumeration of the solver's result
  (\<open>CppAD::ipopt::solve_result::status_type\<close> is declared in the CppAD headers,
  which are not among the sources). The spec names the success status and three ways
  of ending without it: infeasible, iteration limit, time budget exceeded.
\<close>

datatype status_type = success | local_infeasibility | maxiter_exceeded | cputime_exceeded

text \<open>
  \<open>CppAD::ipopt::solve_result<Dvector>\<close>, with the two fields \<open>MPC::Solve\<close> reads
  (\<open>solution.status\<close> and \<open>solution.x\<close>, here \<open>sol_x\<close>: a field called \<open>x\<close> would
  capture every variable of that name).
\<close>

record solve_result =
  status :: status_type
  sol_x :: "real list"

text \<open>\<open>struct actuation_vars\<close> of MPC.h; its fields \<open>d\<close> and \<open>a\<close> are \<open>act_d\<close> and \<open>act_a\<close>.\<close>

record actuation_vars =
  act_d :: real
  act_a :: real
  x_vals :: "real list"
  y_vals :: "real list"

text \<open>
  The external routine \<open>CppAD::ipopt::solve\<close>: from the options, the initial point, the
  variable bounds, the constraint bounds and the evaluator it produces a result. It is
  a parameter of the model.
\<close>

type_synonym nlp_solver =
  "string \<Rightarrow> real list \<Rightarrow> real list \<Rightarrow> real list \<Rightarrow> real list \<Rightarrow> real list \<Rightarrow>
   (real list \<Rightarrow> real list \<Rightarrow> real list) \<Rightarrow> solve_result"

text \<open>Initial value of the independent variables: all 0 besides the initial state.\<close>

definition initial_vars :: "(nat \<Rightarrow> real) \<Rightarrow> real list \<Rightarrow> real list" where
  "initial_vars g state =
     (let x = state ! 0; y = state ! 1; psi = state ! 2;
          v = state ! 3; cte = state ! 4; epsi = state ! 5;
          vars = uninit g n_vars;
          vars = for_loop 0 n_vars (\<lambda>i vars. vars[i := 0.0]) vars;
          vars = vars[x_start := x];
          vars = vars[y_start := y];
          vars = vars[psi_start := psi];
          vars = vars[v_start := v];
          vars = vars[cte_start := cte];
          vars = vars[epsi_start := epsi]
      in vars)"

text \<open>Lower and upper limits of the variables, as the pair (lower, upper).\<close>

definition variable_bounds :: "(nat \<Rightarrow> real) \<Rightarrow> real list \<times> real list" where
  "variable_bounds g =
     (let bounds = (uninit g n_vars, uninit g n_vars);
          bounds = for_loop 0 delta_start
                     (\<lambda>i (lower, upper). (lower[i := - (10 ^ 19)], upper[i := 10 ^ 19])) bounds;
          bounds = for_loop delta_start a_start
                     (\<lambda>i (lower, upper). (lower[i := - 0.436332], upper[i := 0.436332])) bounds;
          bounds = for_loop a_start n_vars
                     (\<lambda>i (lower, upper). (lower[i := - 1.0], upper[i := 1.0])) bounds
      in bounds)"

text \<open>Lower and upper limits of the constraints, as the pair (lower, upper).\<close>

definition constraint_bounds :: "(nat \<Rightarrow> real) \<Rightarrow> real list \<Rightarrow> real list \<times> real list" where
  "constraint_bounds g state =
     (let x = state ! 0; y = state ! 1; psi = state ! 2;
          v = state ! 3; cte = state ! 4; epsi = state ! 5;
          bounds = (uninit g n_constraints, uninit g n_constraints);
          (lower, upper) = for_loop 0 n_constraints
                     (\<lambda>i (lower, upper). (lower[i := 0], upper[i := 0])) bounds;
          lower = lower[x_start := x];
          lower = lower[y_start := y];
          lower = lower[psi_start := psi];
          lower = lower[v_start := v];
          lower = lower[cte_start := cte];
          lower = lower[epsi_start := epsi];
          upper = upper[x_start := x];
          upper = upper[y_start := y];
          upper = upper[psi_start := psi];
          upper = upper[v_start := v];
          upper = upper[cte_start := cte];
          upper = upper[epsi_start := epsi]
      in (lower, upper))"

text \<open>The option text handed to the solver.\<close>

definition solver_options :: string where
  "solver_options =
     ''Integer print_level  0'' @ [CHR 0x0A] @
     ''Sparse  true        forward'' @ [CHR 0x0A] @
     ''Sparse  true        reverse'' @ [CHR 0x0A] @
     ''Numeric max_cpu_time          0.05'' @ [CHR 0x0A]"

text \<open>Reading the first actuation and the predicted positions off the solver's vector.\<close>

definition extract_body :: "real list \<Rightarrow> nat \<Rightarrow> actuation_vars \<Rightarrow> actuation_vars" where
  "extract_body sx t actuations =
     (let actuations = actuations\<lparr>x_vals := x_vals actuations @ [sx ! (x_start + t)]\<rparr>;
          actuations = actuations\<lparr>y_vals := y_vals actuations @ [sx ! (y_start + t)]\<rparr>
      in actuations)"

text \<open>
  \<open>MPC::Solve(state, coeffs)\<close>, with the member \<open>weights\<close>, the external solver and the
  contents of fresh storage as further arguments. The flag \<open>ok\<close> is computed as in the
  source, which never reads it afterwards.
\<close>

definition Solve ::
  "real list \<Rightarrow> nlp_solver \<Rightarrow> (nat \<Rightarrow> real) \<Rightarrow> real list \<Rightarrow> real list \<Rightarrow> actuation_vars" where
  "Solve weights solve g state coeffs =
     (let ok = True;
          vars = initial_vars g state;
          (vars_lowerbound, vars_upperbound) = variable_bounds g;
          (constraints_lowerbound, constraints_upperbound) = constraint_bounds g state;
          fg_eval = FG_eval coeffs weights;
          solution = solve solver_options vars vars_lowerbound vars_upperbound
                       constraints_lowerbound constraints_upperbound fg_eval;
          ok = (ok \<and> status solution = success);
          actuations = \<lparr>act_d = sol_x solution ! delta_start,
                        act_a = sol_x solution ! a_start,
                        x_vals = [], y_vals = []\<rparr>;
          actuations = for_loop 1 N (extract_body (sol_x solution)) actuations
      in actuations)"

section \<open>The control cycle of main.cpp\<close>

text \<open>\<open>polyeval\<close>: evaluate a polynomial, lowest coefficient first.\<close>

definition polyeval :: "real list \<Rightarrow> real \<Rightarrow> real" where
  "polyeval coeffs x =
     for_loop 0 (length coeffs) (\<lambda>i result. result + coeffs ! i * x ^ i) 0.0"

text \<open>
  A failed \<open>assert\<close> ends the program; it is the one error of the model.
\<close>

datatype error = AssertionFailed

text \<open>
  \<open>polyfit\<close>. The matrix \<open>A\<close> is a list of rows. The least-squares solution
  \<open>A.householderQr().solve(yvals)\<close> is Eigen's, a parameter here. \<open>xvals.size()\<close> is
  a signed integer in Eigen, so \<open>xvals.size() - 1\<close> is \<open>-1\<close> for an empty vector.
\<close>

definition polyfit ::
  "(nat \<Rightarrow> real) \<Rightarrow> (real list list \<Rightarrow> real list \<Rightarrow> real list) \<Rightarrow>
   real list \<Rightarrow> real list \<Rightarrow> int \<Rightarrow> error + real list" where
  "polyfit g qr_solve xvals yvals order =
     (if \<not> (length xvals = length yvals) then Inl AssertionFailed
      else if \<not> (order \<ge> 1 \<and> order \<le> int (length xvals) - 1) then Inl AssertionFailed
      else
        let A = replicate (length xvals) (uninit g (nat (order + 1)));
            A = for_loop 0 (length xvals) (\<lambda>i A. A[i := (A ! i)[0 := 1.0]]) A;
            A = for_loop 0 (length xvals) (\<lambda>j A.
                  for_loop 0 (nat order) (\<lambda>i A. A[j := (A ! j)[i + 1 := A ! j ! i * xvals ! j]]) A) A;
            result = qr_solve A yvals
        in Inr result)"

text \<open>
  \<open>globalKinematic\<close> updates \<open>x\<close>, \<open>y\<close>, \<open>p\<close> and \<open>v\<close> through references; the model
  returns the four new values in that order. Its last parameter is the latency.
\<close>

definition globalKinematic ::
  "real \<Rightarrow> real \<Rightarrow> real \<Rightarrow> real \<Rightarrow> real \<Rightarrow> real \<Rightarrow> real \<Rightarrow> real \<times> real \<times> real \<times> real" where
  "globalKinematic x y p v d a latency =
     (let new_v = v + a * latency;
          new_p = p + (v / Lf) * (- d) * latency;
          new_x = x + v * cos p * latency;
          new_y = y + v * sin p * latency
      in (new_x, new_y, new_p, new_v))"

text \<open>Transforming the waypoints from map to vehicle coordinates.\<close>

definition transform_body ::
  "real list \<Rightarrow> real list \<Rightarrow> real \<Rightarrow> real \<Rightarrow> real \<Rightarrow> nat \<Rightarrow>
   real list \<times> real list \<Rightarrow> real list \<times> real list" where
  "transform_body ptsx ptsy px py psi i =
     (\<lambda>(ptsx_transform, ptsy_transform).
        let x = ptsx ! i - px;
            y = ptsy ! i - py
        in (ptsx_transform[i := x * cos (- psi) - y * sin (- psi)],
            ptsy_transform[i := x * sin (- psi) + y * cos (- psi)]))"

definition transform_waypoints ::
  "(nat \<Rightarrow> real) \<Rightarrow> real list \<Rightarrow> real list \<Rightarrow> real \<Rightarrow> real \<Rightarrow> real \<Rightarrow> real list \<times> real list" where
  "transform_waypoints g ptsx ptsy px py psi =
     for_loop 0 (length ptsx) (transform_body ptsx ptsy px py psi)
       (uninit g (length ptsx), uninit g (length ptsy))"

text \<open>
  The telemetry branch of \<open>onMessage\<close> up to the call of \<open>mpc.Solve\<close>: from the
  waypoints, the pose, the speed and the last actuation it computes the state vector
  and the coefficients that are passed to \<open>Solve\<close>. The measured latency
  \<open>calc_latency(then)\<close> is an argument.
\<close>

definition telemetry_state ::
  "(nat \<Rightarrow> real) \<Rightarrow> (real list list \<Rightarrow> real list \<Rightarrow> real list) \<Rightarrow> real \<Rightarrow>
   real list \<Rightarrow> real list \<Rightarrow> real \<Rightarrow> real \<Rightarrow> real \<Rightarrow> real \<Rightarrow> real \<Rightarrow> real \<Rightarrow>
   error + (real list \<times> real list)" where
  "telemetry_state g qr_solve latency ptsx ptsy px py psi v d a =
     (let (px, py, psi, v) = globalKinematic px py psi v d a latency;
          (ptsx_transform, ptsy_transform) = transform_waypoints g ptsx ptsy px py psi
      in case polyfit g qr_solve ptsx_transform ptsy_transform 3 of
           Inl e \<Rightarrow> Inl e
         | Inr coeffs \<Rightarrow>
             let cte = polyeval coeffs 0;
                 epsi = - arctan (coeffs ! 1);
                 state_vector = [0, 0, 0, v, cte, epsi]
             in Inr (state_vector, coeffs))"

text \<open>The reply of one control cycle: the fields of \<open>msgJson\<close>.\<close>

record steer_message =
  steering_angle :: real
  throttle :: real
  mpc_x :: "real list"
  mpc_y :: "real list"
  next_x :: "real list"
  next_y :: "real list"

definition deg2rad :: "real \<Rightarrow> real" where
  "deg2rad x = x * pi / 180"

definition reference_line_body ::
  "real list \<Rightarrow> real \<Rightarrow> nat \<Rightarrow> real list \<times> real list \<Rightarrow> real list \<times> real list" where
  "reference_line_body coeffs unit i =
     (\<lambda>(next_x_vals, next_y_vals).
        (next_x_vals @ [real i * unit], next_y_vals @ [polyeval coeffs (real i * unit)]))"

definition on_telemetry ::
  "real list \<Rightarrow> nlp_solver \<Rightarrow> (nat \<Rightarrow> real) \<Rightarrow> (real list list \<Rightarrow> real list \<Rightarrow> real list) \<Rightarrow>
   real \<Rightarrow> real list \<Rightarrow> real list \<Rightarrow> real \<Rightarrow> real \<Rightarrow> real \<Rightarrow> real \<Rightarrow> real \<Rightarrow> real \<Rightarrow>
   error + steer_message" where
  "on_telemetry weights solve g qr_solve latency ptsx ptsy px py psi v d a =
     (case telemetry_state g qr_solve latency ptsx ptsy px py psi v d a of
        Inl e \<Rightarrow> Inl e
      | Inr (state_vector, coeffs) \<Rightarrow>
          let vars = Solve weights solve g state_vector coeffs;
              steer_value = act_d vars;
              throttle_value = act_a vars;
              num_points = 25;
              unit = 2.5;
              (next_x_vals, next_y_vals) =
                for_loop 0 num_points (reference_line_body coeffs unit) ([], []);
              mpc_x_vals = x_vals vars;
              mpc_y_vals = y_vals vars
          in Inr \<lparr>steering_angle = - 1 * (steer_value / deg2rad 25),
                  throttle = throttle_value,
                  mpc_x = mpc_x_vals, mpc_y = mpc_y_vals,
                  next_x = next_x_vals, next_y = next_y_vals\<rparr>)"

section \<open>Specification-side definitions\<close>

text \<open>
  What the constraint loop leaves in \<open>fg\<close> for step \<open>t\<close>: the six residuals, written
  with the expressions of the loop body.
\<close>

definition residuals :: "real list \<Rightarrow> real list \<Rightarrow> nat \<Rightarrow> real list \<Rightarrow> bool" where
  "residuals coeffs vars t fg \<longleftrightarrow>
     (let x0 = vars ! (x_start + t - 1); y0 = vars ! (y_start + t - 1);
          psi0 = vars ! (psi_start + t - 1); v0 = vars ! (v_start + t - 1);
          epsi0 = vars ! (epsi_start + t - 1);
          delta0 = vars ! (delta_start + t - 1); a0 = vars ! (a_start + t - 1)
      in fg ! (1 + x_start + t) = vars ! (x_start + t) - (x0 + v0 * cos psi0 * dt) \<and>
         fg ! (1 + y_start + t) = vars ! (y_start + t) - (y0 + v0 * sin psi0 * dt) \<and>
         fg ! (1 + psi_start + t) = vars ! (psi_start + t) - (psi0 + v0 * delta0 / Lf * dt) \<and>
         fg ! (1 + v_start + t) = vars ! (v_start + t) - (v0 + a0 * dt) \<and>
         fg ! (1 + cte_start + t) = vars ! (cte_start + t) -
            ((coeffs ! 0 + coeffs ! 1 * x0 + coeffs ! 2 * x0 * x0 + coeffs ! 3 * x0 * x0 * x0 - y0) +
             v0 * sin epsi0 * dt) \<and>
         fg ! (1 + epsi_start + t) = vars ! (epsi_start + t) -
            ((psi0 - arctan (1 * coeffs ! 1 + 2 * coeffs ! 2 * x0 + 3 * coeffs ! 3 * x0 * x0)) +
             v0 * delta0 / Lf * dt))"

text \<open>
  The inverse of the frame transform, in the words of the specification: rotate the
  local point by \<open>\<psi>\<close>, then translate it by \<open>(px, py)\<close>. The program has no such
  function; it is the yardstick of the round-trip property.
\<close>

definition inverse_transform :: "real \<Rightarrow> real \<Rightarrow> real \<Rightarrow> real \<times> real \<Rightarrow> real \<times> real" where
  "inverse_transform px py psi =
     (\<lambda>(local_x, local_y).
        (local_x * cos psi - local_y * sin psi + px,
         local_x * sin psi + local_y * cos psi + py))"

section \<open>Counted loops\<close>

lemma for_loop_empty: "hi \<le> lo \<Longrightarrow> for_loop lo hi body s = s"
  by (simp add: for_loop_def)

lemma for_loop_Suc: "lo \<le> hi \<Longrightarrow> for_loop lo (Suc hi) body s = body hi (for_loop lo hi body s)"
  by (simp add: for_loop_def)

lemma for_loop_invariant:
  assumes "P s" and "\<And>t s. lo \<le> t \<Longrightarrow> t < hi \<Longrightarrow> P s \<Longrightarrow> P (body t s)"
  shows "P (for_loop lo hi body s)"
  using assms
proof (induction hi)
  case 0
  then show ?case by (simp add: for_loop_empty)
next
  case (Suc hi)
  show ?case
  proof (cases "lo \<le> hi")
    case True
    have "P (for_loop lo hi body s)"
      using Suc.IH Suc.prems by simp
    then show ?thesis
      using True Suc.prems(2) by (simp add: for_loop_Suc)
  next
    case False
    then show ?thesis using Suc.prems(1) by (simp add: for_loop_empty)
  qed
qed

text \<open>A loop whose body only adds to cell 0 adds up the sum of what each round adds.\<close>

lemma for_loop_accumulate:
  fixes body :: "nat \<Rightarrow> real list \<Rightarrow> real list"
  assumes step: "\<And>t fg. fg \<noteq> [] \<Longrightarrow> body t fg \<noteq> [] \<and> body t fg ! 0 = fg ! 0 + term t"
    and "fg \<noteq> []"
  shows "for_loop lo hi body fg \<noteq> [] \<and>
         for_loop lo hi body fg ! 0 = fg ! 0 + (\<Sum>t = lo..<hi. term t)"
proof (induction hi)
  case 0
  then show ?case using assms(2) by (simp add: for_loop_empty)
next
  case (Suc hi)
  show ?case
  proof (cases "lo \<le> hi")
    case True
    then show ?thesis
      using Suc.IH step [of "for_loop lo hi body fg" hi] by (simp add: for_loop_Suc)
  next
    case False
    then show ?thesis using assms(2) by (simp add: for_loop_empty)
  qed
qed

lemmas layout_defs = x_start_def y_start_def psi_start_def v_start_def cte_start_def
  epsi_start_def delta_start_def a_start_def n_vars_def n_constraints_def

section \<open>The objective\<close>

lemma cost_state_body_acc:
  "fg \<noteq> [] \<Longrightarrow> cost_state_body weights vars t fg \<noteq> [] \<and>
     cost_state_body weights vars t fg ! 0 = fg ! 0 +
       (weights ! 0 * (vars ! (cte_start + t))\<^sup>2 + weights ! 1 * (vars ! (epsi_start + t))\<^sup>2 +
        weights ! 2 * (vars ! (v_start + t) - ref_v)\<^sup>2)"
  by (cases fg) (simp_all add: cost_state_body_def)

lemma cost_actuator_body_acc:
  "fg \<noteq> [] \<Longrightarrow> cost_actuator_body weights vars t fg \<noteq> [] \<and>
     cost_actuator_body weights vars t fg ! 0 = fg ! 0 +
       (weights ! 3 * (vars ! (delta_start + t))\<^sup>2 + weights ! 4 * (vars ! (a_start + t))\<^sup>2)"
  by (cases fg) (simp_all add: cost_actuator_body_def)

lemma cost_gap_body_acc:
  "fg \<noteq> [] \<Longrightarrow> cost_gap_body weights vars t fg \<noteq> [] \<and>
     cost_gap_body weights vars t fg ! 0 = fg ! 0 +
       (weights ! 5 * (vars ! (delta_start + t + 1) - vars ! (delta_start + t))\<^sup>2 +
        weights ! 6 * (vars ! (a_start + t + 1) - vars ! (a_start + t))\<^sup>2)"
  by (cases fg) (simp_all add: cost_gap_body_def)

lemma cost_state_body_length: "length (cost_state_body weights vars t fg) = length fg"
  by (simp add: cost_state_body_def)

lemma cost_actuator_body_length: "length (cost_actuator_body weights vars t fg) = length fg"
  by (simp add: cost_actuator_body_def)

lemma cost_gap_body_length: "length (cost_gap_body weights vars t fg) = length fg"
  by (simp add: cost_gap_body_def)

lemma constraint_body_length: "length (constraint_body coeffs vars t fg) = length fg"
  by (simp add: constraint_body_def Let_def)

lemma constraint_body_cost: "constraint_body coeffs vars t fg ! 0 = fg ! 0"
  by (simp add: constraint_body_def Let_def)

lemma constraint_loop_cost: "for_loop lo hi (constraint_body coeffs vars) fg ! 0 = fg ! 0"
  by (rule for_loop_invariant [where P = "\<lambda>s. s ! 0 = fg ! 0"])
    (simp_all add: constraint_body_cost)

lemma loop_length:
  assumes "\<And>t s. length (body t s) = length s"
  shows "length (for_loop lo hi body fg) = length fg"
  by (rule for_loop_invariant [where P = "\<lambda>s. length s = length fg"]) (simp_all add: assms)

text \<open>
  C3. For every decision vector and every weight vector of 7 entries, the objective that
  the evaluator leaves in \<open>fg[0]\<close> is the sum of the seven weighted squares: over
  \<open>t = 0..N-1\<close> the cross-track error, the heading error and the speed deviation from
  \<open>ref_v\<close>; over \<open>t = 0..N-2\<close> the steering and the acceleration; over \<open>t = 0..N-3\<close>
  the change of steering and of acceleration between consecutive steps.
\<close>

theorem objective_value:
  assumes "length weights = 7" and "length vars = n_vars" and "length fg = 1 + n_constraints"
  shows "FG_eval coeffs weights fg vars ! 0 =
      (\<Sum>t = 0..<N. weights ! 0 * (vars ! (cte_start + t))\<^sup>2 +
                     weights ! 1 * (vars ! (epsi_start + t))\<^sup>2 +
                     weights ! 2 * (vars ! (v_start + t) - ref_v)\<^sup>2) +
      (\<Sum>t = 0..<N - 1. weights ! 3 * (vars ! (delta_start + t))\<^sup>2 +
                         weights ! 4 * (vars ! (a_start + t))\<^sup>2) +
      (\<Sum>t = 0..<N - 2. weights ! 5 * (vars ! (delta_start + (t + 1)) - vars ! (delta_start + t))\<^sup>2 +
                         weights ! 6 * (vars ! (a_start + (t + 1)) - vars ! (a_start + t))\<^sup>2)"
proof -
  let ?f0 = "fg[0 := 0]"
  let ?f1 = "for_loop 0 N (cost_state_body weights vars) ?f0"
  let ?f2 = "for_loop 0 (N - 1) (cost_actuator_body weights vars) ?f1"
  let ?f3 = "for_loop 0 (N - 2) (cost_gap_body weights vars) ?f2"
  have "fg \<noteq> []"
    using assms(3) by auto
  then have f0: "?f0 \<noteq> []" "?f0 ! 0 = 0"
    by (cases fg; simp)+
  note a1 = for_loop_accumulate [where body = "cost_state_body weights vars" and lo = 0 and hi = N,
      OF cost_state_body_acc f0(1)]
  note a2 = for_loop_accumulate [where body = "cost_actuator_body weights vars" and lo = 0
      and hi = "N - 1", OF cost_actuator_body_acc conjunct1 [OF a1]]
  note a3 = for_loop_accumulate [where body = "cost_gap_body weights vars" and lo = 0
      and hi = "N - 2", OF cost_gap_body_acc conjunct1 [OF a2]]
  have "FG_eval coeffs weights fg vars ! 0 = ?f3 ! 0"
    by (simp add: FG_eval_def Let_def constraint_loop_cost)
  then show ?thesis
    using a1 a2 a3 f0(2) by (simp add: add.assoc)
qed

theorem objective_value_witness:
  "length [2, 10, 5, 3000, 100, 500, 100 :: real] = 7 \<and>
   length (replicate n_vars (1 :: real)) = n_vars \<and>
   length (replicate (1 + n_constraints) (0 :: real)) = 1 + n_constraints \<and>
   FG_eval [0, 0, 0, 0] [2, 10, 5, 3000, 100, 500, 100]
     (replicate (1 + n_constraints) 0) (replicate n_vars 1) ! 0 = 117836"
  using objective_value [of "[2, 10, 5, 3000, 100, 500, 100]" "replicate n_vars 1"
      "replicate (1 + n_constraints) 0" "[0, 0, 0, 0]"]
  by (simp add: layout_defs N_def ref_v_def)

section \<open>The model constraints\<close>

lemma constraint_body_writes:
  assumes "length fg = 1 + n_constraints" and "t < N"
  shows "residuals coeffs vars t (constraint_body coeffs vars t fg)"
  using assms
  by (simp add: residuals_def constraint_body_def Let_def layout_defs N_def)

lemma constraint_body_keeps:
  assumes "residuals coeffs vars t fg" and "u \<noteq> t" and "t < N" and "u < N"
  shows "residuals coeffs vars t (constraint_body coeffs vars u fg)"
proof -
  have "constraint_body coeffs vars u fg ! (1 + k + t) = fg ! (1 + k + t)"
    if "k \<in> {x_start, y_start, psi_start, v_start, cte_start, epsi_start}" for k
    using that assms(2-4) by (auto simp add: constraint_body_def Let_def layout_defs N_def)
  then show ?thesis
    using assms(1) unfolding residuals_def Let_def by simp
qed

lemma constraint_loop_residuals:
  assumes "length fg = 1 + n_constraints" and "1 \<le> t" and "t < hi" and "hi \<le> N"
  shows "residuals coeffs vars t (for_loop 1 hi (constraint_body coeffs vars) fg)"
  using assms(3,4)
proof (induction hi)
  case 0
  then show ?case by simp
next
  case (Suc hi)
  let ?fg = "for_loop 1 hi (constraint_body coeffs vars) fg"
  have len: "length ?fg = 1 + n_constraints"
    using assms(1) by (simp add: loop_length constraint_body_length)
  have step: "for_loop 1 (Suc hi) (constraint_body coeffs vars) fg = constraint_body coeffs vars hi ?fg"
    using assms(2) Suc.prems by (simp add: for_loop_Suc)
  show ?case
  proof (cases "t = hi")
    case True
    then show ?thesis
      using constraint_body_writes [OF len, of t coeffs vars] Suc.prems step by simp
  next
    case False
    then have "residuals coeffs vars t ?fg"
      using Suc by simp
    then show ?thesis
      using constraint_body_keeps [of coeffs vars t ?fg hi] False Suc.prems step by simp
  qed
qed

lemma FG_eval_residuals:
  assumes "length fg = 1 + n_constraints" and "1 \<le> t" and "t < N"
  shows "residuals coeffs vars t (FG_eval coeffs weights fg vars)"
proof -
  let ?cost = "for_loop 0 (N - 2) (cost_gap_body weights vars)
      (for_loop 0 (N - 1) (cost_actuator_body weights vars)
        (for_loop 0 N (cost_state_body weights vars) (fg[0 := 0])))"
  let ?pre = "?cost[1 + x_start := vars ! x_start, 1 + y_start := vars ! y_start,
      1 + psi_start := vars ! psi_start, 1 + v_start := vars ! v_start,
      1 + cte_start := vars ! cte_start, 1 + epsi_start := vars ! epsi_start]"
  have len: "length ?pre = 1 + n_constraints"
    using assms(1)
    by (simp add: loop_length cost_state_body_length cost_actuator_body_length
        cost_gap_body_length)
  have "FG_eval coeffs weights fg vars = for_loop 1 N (constraint_body coeffs vars) ?pre"
    by (simp add: FG_eval_def Let_def)
  then show ?thesis
    using constraint_loop_residuals [OF len assms(2,3), where coeffs = coeffs and vars = vars] by simp
qed

section \<open>Polynomial evaluation\<close>

lemma polyeval_sum: "polyeval coeffs x = (\<Sum>i = 0..<length coeffs. coeffs ! i * x ^ i)"
proof -
  have "for_loop 0 n (\<lambda>i result. result + coeffs ! i * x ^ i) r = r + (\<Sum>i = 0..<n. coeffs ! i * x ^ i)"
    for n and r :: real
    by (induction n) (simp_all add: for_loop_empty for_loop_Suc)
  then show ?thesis
    by (simp add: polyeval_def)
qed

lemma polyeval_cubic:
  assumes "length coeffs = 4"
  shows "polyeval coeffs x =
    coeffs ! 0 + coeffs ! 1 * x + coeffs ! 2 * x * x + coeffs ! 3 * x * x * x"
  using assms by (simp add: polyeval_sum eval_nat_numeral algebra_simps)

lemma polyeval_cubic_deriv:
  assumes "length coeffs = 4"
  shows "DERIV (polyeval coeffs) x :> 1 * coeffs ! 1 + 2 * coeffs ! 2 * x + 3 * coeffs ! 3 * x * x"
proof -
  have eq: "polyeval coeffs = (\<lambda>x. coeffs ! 0 + coeffs ! 1 * x + coeffs ! 2 * x * x + coeffs ! 3 * x * x * x)"
    using assms by (auto simp: polyeval_cubic)
  show ?thesis
    unfolding eq by (auto intro!: derivative_eq_intros simp: algebra_simps)
qed

lemma polyeval_zero:
  assumes "1 \<le> length coeffs"
  shows "polyeval coeffs 0 = coeffs ! 0"
proof -
  have "polyeval coeffs 0 = (\<Sum>i = 0..<length coeffs. if i = 0 then coeffs ! 0 else 0)"
    unfolding polyeval_sum by (rule sum.cong) (auto simp: power_0_left)
  also have "\<dots> = coeffs ! 0"
    using assms by (cases coeffs) simp_all
  finally show ?thesis .
qed

text \<open>
  C2. For every step \<open>t = 1..N-1\<close> and every decision vector, the six constraint
  entries of that step are next state minus the prediction of the kinematic model from
  step \<open>t - 1\<close>: for x, y, \<open>\<psi>\<close> and v as in the model, and for cte and \<open>e\<psi>\<close> with
  the value of the fitted cubic (\<open>polyeval coeffs\<close>) and the arc tangent of its
  derivative, both taken at the x-position of step \<open>t - 1\<close>.
\<close>

theorem dynamics_residuals:
  assumes "length vars = n_vars" and "length fg = 1 + n_constraints" and "length coeffs = 4"
    and "1 \<le> t" and "t < N"
    and "DERIV (polyeval coeffs) (vars ! (x_start + (t - 1))) :> slope"
  shows
    "let fg' = FG_eval coeffs weights fg vars;
         x = (\<lambda>s. vars ! (x_start + s)); y = (\<lambda>s. vars ! (y_start + s));
         psi = (\<lambda>s. vars ! (psi_start + s)); v = (\<lambda>s. vars ! (v_start + s));
         cte = (\<lambda>s. vars ! (cte_start + s)); epsi = (\<lambda>s. vars ! (epsi_start + s));
         delta = (\<lambda>s. vars ! (delta_start + s)); a = (\<lambda>s. vars ! (a_start + s))
     in fg' ! (1 + x_start + t) = x t - (x (t - 1) + v (t - 1) * cos (psi (t - 1)) * dt) \<and>
        fg' ! (1 + y_start + t) = y t - (y (t - 1) + v (t - 1) * sin (psi (t - 1)) * dt) \<and>
        fg' ! (1 + psi_start + t) = psi t - (psi (t - 1) + (v (t - 1) / Lf) * delta (t - 1) * dt) \<and>
        fg' ! (1 + v_start + t) = v t - (v (t - 1) + a (t - 1) * dt) \<and>
        fg' ! (1 + cte_start + t) =
          cte t - ((polyeval coeffs (x (t - 1)) - y (t - 1)) + v (t - 1) * sin (epsi (t - 1)) * dt) \<and>
        fg' ! (1 + epsi_start + t) =
          epsi t - ((psi (t - 1) - arctan slope) + (v (t - 1) / Lf) * delta (t - 1) * dt)"
proof -
  have idx: "k + t - 1 = k + (t - 1)" for k
    using assms(4) by simp
  have slope: "slope = 1 * coeffs ! 1 + 2 * coeffs ! 2 * vars ! (x_start + (t - 1)) +
      3 * coeffs ! 3 * vars ! (x_start + (t - 1)) * vars ! (x_start + (t - 1))"
    using assms(6) polyeval_cubic_deriv [OF assms(3)] by (rule DERIV_unique)
  have "residuals coeffs vars t (FG_eval coeffs weights fg vars)"
    using assms by (intro FG_eval_residuals)
  then show ?thesis
    unfolding residuals_def Let_def idx polyeval_cubic [OF assms(3)] slope by simp
qed

theorem dynamics_residuals_witness:
  "length (replicate n_vars (0 :: real)) = n_vars \<and>
   length (replicate (1 + n_constraints) (7 :: real)) = 1 + n_constraints \<and>
   length [1, 0, 0, 0 :: real] = 4 \<and> (1 :: nat) \<le> 1 \<and> 1 < N \<and>
   DERIV (polyeval [1, 0, 0, 0]) (replicate n_vars 0 ! (x_start + (1 - 1))) :> 0 \<and>
   FG_eval [1, 0, 0, 0] [2, 10, 5, 3000, 100, 500, 100]
     (replicate (1 + n_constraints) 7) (replicate n_vars 0) ! (1 + cte_start + 1) = - 1"
proof -
  have d: "DERIV (polyeval [1, 0, 0, 0]) (replicate n_vars 0 ! (x_start + (1 - 1))) :> 0"
    using polyeval_cubic_deriv [of "[1, 0, 0, 0]" 0] by (simp add: layout_defs N_def)
  show ?thesis
    using d dynamics_residuals [of "replicate n_vars 0" "replicate (1 + n_constraints) 7"
        "[1, 0, 0, 0]" 1 0 "[2, 10, 5, 3000, 100, 500, 100]"]
    by (simp add: layout_defs N_def polyeval_cubic Let_def)
qed


section \<open>The arrays built by \<open>MPC::Solve\<close>\<close>

lemma uninit_length: "length (uninit g n) = n"
  by (simp add: uninit_def)

lemma fill_step:
  assumes "lo \<le> hi"
  shows "(map (\<lambda>j. if lo \<le> j \<and> j < hi then c j else xs ! j) [0..<length xs])[hi := c hi] =
     map (\<lambda>j. if lo \<le> j \<and> j < Suc hi then c j else xs ! j) [0..<length xs]"
  using assms by (intro nth_equalityI) (auto simp: nth_list_update less_Suc_eq)

lemma fill_none:
  assumes "hi \<le> lo"
  shows "map (\<lambda>j. if lo \<le> j \<and> j < hi then c j else xs ! j) [0..<length xs] = xs"
  using assms by (intro nth_equalityI) auto

text \<open>A loop that stores \<open>c i\<close> in cell \<open>i\<close> of a vector, for \<open>i\<close> from \<open>lo\<close> to \<open>hi - 1\<close>.\<close>

lemma fill_loop:
  "for_loop lo hi (\<lambda>i vars. vars[i := c i]) xs =
     map (\<lambda>j. if lo \<le> j \<and> j < hi then c j else xs ! j) [0..<length xs]"
proof (induction hi)
  case 0
  then show ?case by (simp add: for_loop_empty map_nth)
next
  case (Suc hi)
  show ?case
  proof (cases "lo \<le> hi")
    case True
    show ?thesis
      unfolding for_loop_Suc [OF True] Suc.IH by (rule fill_step [OF True])
  next
    case False
    then show ?thesis
      by (simp add: for_loop_empty fill_none)
  qed
qed

text \<open>The same for a loop that fills two vectors side by side.\<close>

lemma fill_pair_loop:
  "for_loop lo hi (\<lambda>i (lower, upper). (lower[i := c i], upper[i := d i])) (xs, ys) =
     (map (\<lambda>j. if lo \<le> j \<and> j < hi then c j else xs ! j) [0..<length xs],
      map (\<lambda>j. if lo \<le> j \<and> j < hi then d j else ys ! j) [0..<length ys])"
proof (induction hi)
  case 0
  then show ?case by (simp add: for_loop_empty map_nth)
next
  case (Suc hi)
  show ?case
  proof (cases "lo \<le> hi")
    case True
    show ?thesis
      unfolding for_loop_Suc [OF True] Suc.IH by (simp add: fill_step [OF True])
  next
    case False
    then show ?thesis
      by (simp add: for_loop_empty fill_none)
  qed
qed

lemma variable_bounds_eq:
  "variable_bounds g =
     (map (\<lambda>i. if i < delta_start then - (10 ^ 19) else if i < a_start then - 0.436332 else - 1)
        [0..<n_vars],
      map (\<lambda>i. if i < delta_start then 10 ^ 19 else if i < a_start then 0.436332 else 1)
        [0..<n_vars])"
  unfolding variable_bounds_def Let_def fill_pair_loop
  by (auto simp: uninit_length layout_defs N_def intro!: nth_equalityI)

lemma initial_vars_eq:
  "initial_vars g state =
     map (\<lambda>i. if i = x_start then state ! 0 else if i = y_start then state ! 1
               else if i = psi_start then state ! 2 else if i = v_start then state ! 3
               else if i = cte_start then state ! 4 else if i = epsi_start then state ! 5
               else 0) [0..<n_vars]"
  unfolding initial_vars_def Let_def fill_loop
  by (rule nth_equalityI) (auto simp: uninit_length nth_list_update layout_defs N_def)

lemma constraint_bounds_eq:
  "constraint_bounds g state =
     (let pin = (\<lambda>i. if i = x_start then state ! 0 else if i = y_start then state ! 1
               else if i = psi_start then state ! 2 else if i = v_start then state ! 3
               else if i = cte_start then state ! 4 else if i = epsi_start then state ! 5
               else 0)
      in (map pin [0..<n_constraints], map pin [0..<n_constraints]))"
  unfolding constraint_bounds_def Let_def fill_pair_loop prod.case
  by (auto simp: uninit_length nth_list_update layout_defs N_def intro!: nth_equalityI)


lemma constraint_body_keeps_initial:
  assumes "1 \<le> u" and "u < N"
    and "k \<in> {x_start, y_start, psi_start, v_start, cte_start, epsi_start}"
  shows "constraint_body coeffs vars u fg ! (1 + k) = fg ! (1 + k)"
  using assms by (auto simp add: constraint_body_def Let_def layout_defs N_def)

lemma FG_eval_initial:
  assumes "length fg = 1 + n_constraints"
  shows "FG_eval coeffs weights fg vars ! (1 + x_start) = vars ! x_start \<and>
         FG_eval coeffs weights fg vars ! (1 + y_start) = vars ! y_start \<and>
         FG_eval coeffs weights fg vars ! (1 + psi_start) = vars ! psi_start \<and>
         FG_eval coeffs weights fg vars ! (1 + v_start) = vars ! v_start \<and>
         FG_eval coeffs weights fg vars ! (1 + cte_start) = vars ! cte_start \<and>
         FG_eval coeffs weights fg vars ! (1 + epsi_start) = vars ! epsi_start"
proof -
  let ?cost = "for_loop 0 (N - 2) (cost_gap_body weights vars)
      (for_loop 0 (N - 1) (cost_actuator_body weights vars)
        (for_loop 0 N (cost_state_body weights vars) (fg[0 := 0])))"
  let ?pre = "?cost[1 + x_start := vars ! x_start, 1 + y_start := vars ! y_start,
      1 + psi_start := vars ! psi_start, 1 + v_start := vars ! v_start,
      1 + cte_start := vars ! cte_start, 1 + epsi_start := vars ! epsi_start]"
  have len: "length ?cost = 1 + n_constraints"
    using assms
    by (simp add: loop_length cost_state_body_length cost_actuator_body_length
        cost_gap_body_length)
  have eq: "FG_eval coeffs weights fg vars = for_loop 1 N (constraint_body coeffs vars) ?pre"
    by (simp add: FG_eval_def Let_def)
  have keep: "for_loop 1 N (constraint_body coeffs vars) ?pre ! (1 + k) = ?pre ! (1 + k)"
    if "k \<in> {x_start, y_start, psi_start, v_start, cte_start, epsi_start}" for k
  proof (rule for_loop_invariant [where P = "\<lambda>s. s ! (1 + k) = ?pre ! (1 + k)"])
    show "?pre ! (1 + k) = ?pre ! (1 + k)" ..
  next
    fix t :: nat and s :: "real list"
    assume "1 \<le> t" and "t < N" and "s ! (1 + k) = ?pre ! (1 + k)"
    then show "constraint_body coeffs vars t s ! (1 + k) = ?pre ! (1 + k)"
      using constraint_body_keeps_initial [OF _ _ that, of t coeffs vars s] by simp
  qed
  have pre: "?pre ! (1 + x_start) = vars ! x_start" "?pre ! (1 + y_start) = vars ! y_start"
    "?pre ! (1 + psi_start) = vars ! psi_start" "?pre ! (1 + v_start) = vars ! v_start"
    "?pre ! (1 + cte_start) = vars ! cte_start" "?pre ! (1 + epsi_start) = vars ! epsi_start"
    using len by (simp_all add: nth_list_update layout_defs N_def)
  show ?thesis
    unfolding eq
    using pre keep [of x_start] keep [of y_start] keep [of psi_start] keep [of v_start]
      keep [of cte_start] keep [of epsi_start]
    by simp
qed

text \<open>
  C4. The decision vector has \<open>6N + 2(N - 1)\<close> entries in contiguous blocks: x, y,
  \<open>\<psi>\<close>, v, cte, \<open>e\<psi>\<close> of length \<open>N\<close> each, then \<open>\<delta>\<close> and a of length \<open>N - 1\<close> each.
  The three users inside \<open>MPC::Solve\<close> follow that layout: the variable bounds are
  unbounded on the six state blocks, the steering limit on the \<open>\<delta>\<close> block and \<open>\<plusminus>1\<close> on the
  a block; the initial guess holds the state at the first entry of each state block and
  0 elsewhere; the evaluator reads the initial state at the block starts and, for each
  later step \<open>t\<close>, the variables at offset \<open>t\<close> and \<open>t - 1\<close> of their blocks.
\<close>

theorem decision_vector_layout:
  assumes "length state = 6"
  shows
  "n_vars = 6 * N + 2 * (N - 1) \<and>
   x_start = 0 \<and> y_start = x_start + N \<and> psi_start = y_start + N \<and>
   v_start = psi_start + N \<and> cte_start = v_start + N \<and> epsi_start = cte_start + N \<and>
   delta_start = epsi_start + N \<and> a_start = delta_start + (N - 1) \<and>
   n_vars = a_start + (N - 1) \<and>
   variable_bounds g =
     (map (\<lambda>i. if i < delta_start then - (10 ^ 19) else if i < a_start then - 0.436332 else - 1)
        [0..<n_vars],
      map (\<lambda>i. if i < delta_start then 10 ^ 19 else if i < a_start then 0.436332 else 1)
        [0..<n_vars]) \<and>
   initial_vars g state =
     map (\<lambda>i. if i = x_start then state ! 0 else if i = y_start then state ! 1
               else if i = psi_start then state ! 2 else if i = v_start then state ! 3
               else if i = cte_start then state ! 4 else if i = epsi_start then state ! 5
               else 0) [0..<n_vars] \<and>
   (length fg = 1 + n_constraints \<longrightarrow>
      FG_eval coeffs weights fg vars ! (1 + x_start) = vars ! x_start \<and>
      FG_eval coeffs weights fg vars ! (1 + y_start) = vars ! y_start \<and>
      FG_eval coeffs weights fg vars ! (1 + psi_start) = vars ! psi_start \<and>
      FG_eval coeffs weights fg vars ! (1 + v_start) = vars ! v_start \<and>
      FG_eval coeffs weights fg vars ! (1 + cte_start) = vars ! cte_start \<and>
      FG_eval coeffs weights fg vars ! (1 + epsi_start) = vars ! epsi_start \<and>
      (\<forall>t. 1 \<le> t \<and> t < N \<longrightarrow> residuals coeffs vars t (FG_eval coeffs weights fg vars)))"
proof -
  have offsets: "n_vars = 6 * N + 2 * (N - 1) \<and>
   x_start = 0 \<and> y_start = x_start + N \<and> psi_start = y_start + N \<and>
   v_start = psi_start + N \<and> cte_start = v_start + N \<and> epsi_start = cte_start + N \<and>
   delta_start = epsi_start + N \<and> a_start = delta_start + (N - 1) \<and>
   n_vars = a_start + (N - 1)"
    by (simp add: layout_defs N_def)
  show ?thesis
    using offsets variable_bounds_eq [of g] initial_vars_eq [of g state]
      FG_eval_initial [of fg coeffs weights vars] FG_eval_residuals [of fg _ coeffs vars weights]
    by blast
qed

theorem decision_vector_layout_witness:
  "length [1, 2, 3, 4, 5, 6 :: real] = 6 \<and>
   length (replicate (1 + n_constraints) (0 :: real)) = 1 + n_constraints \<and>
   fst (variable_bounds (\<lambda>i. 7)) ! delta_start = - 0.436332 \<and>
   snd (variable_bounds (\<lambda>i. 7)) ! a_start = 1 \<and>
   initial_vars (\<lambda>i. 7) [1, 2, 3, 4, 5, 6] ! y_start = 2 \<and>
   initial_vars (\<lambda>i. 7) [1, 2, 3, 4, 5, 6] ! (y_start + 1) = 0 \<and>
   FG_eval [0, 0, 0, 0] [2, 10, 5, 3000, 100, 500, 100] (replicate (1 + n_constraints) 0)
     (replicate n_vars 5) ! (1 + y_start) = 5"
  using decision_vector_layout [of "[1, 2, 3, 4, 5, 6]" "\<lambda>i. 7" "replicate (1 + n_constraints) 0"
      "[0, 0, 0, 0]" "[2, 10, 5, 3000, 100, 500, 100]" "replicate n_vars 5"]
  by (simp add: layout_defs N_def)

text \<open>
  C5, as stated: the constraint bounds have the state in their first six entries and
  zero in the remaining \<open>6(N - 1)\<close>. This fails for the state \<open>(1, 2, 3, 4, 5, 6)\<close>:
  entry 1 of the lower bounds is 0, not \<open>y = 2\<close>, which sits at \<open>y_start = 8\<close>.
\<close>

theorem constraint_bounds_first_six_counterexample:
  "\<not> (take 6 (fst (constraint_bounds (\<lambda>i. 0) [1, 2, 3, 4, 5, 6])) = [1, 2, 3, 4, 5, 6] \<and>
      take 6 (snd (constraint_bounds (\<lambda>i. 0) [1, 2, 3, 4, 5, 6])) = [1, 2, 3, 4, 5, 6] \<and>
      drop 6 (fst (constraint_bounds (\<lambda>i. 0) [1, 2, 3, 4, 5, 6])) = replicate (6 * (N - 1)) 0 \<and>
      drop 6 (snd (constraint_bounds (\<lambda>i. 0) [1, 2, 3, 4, 5, 6])) = replicate (6 * (N - 1)) 0)"
proof
  assume a: "take 6 (fst (constraint_bounds (\<lambda>i. 0) [1, 2, 3, 4, 5, 6])) = [1, 2, 3, 4, 5, 6] \<and>
      take 6 (snd (constraint_bounds (\<lambda>i. 0) [1, 2, 3, 4, 5, 6])) = [1, 2, 3, 4, 5, 6] \<and>
      drop 6 (fst (constraint_bounds (\<lambda>i. 0) [1, 2, 3, 4, 5, 6])) = replicate (6 * (N - 1)) 0 \<and>
      drop 6 (snd (constraint_bounds (\<lambda>i. 0) [1, 2, 3, 4, 5, 6])) = replicate (6 * (N - 1)) 0"
  then have "take 6 (fst (constraint_bounds (\<lambda>i. 0) [1, 2, 3, 4, 5, 6])) ! 1 = [1, 2, 3, 4, 5, 6 :: real] ! 1"
    by simp
  then show False
    by (simp add: constraint_bounds_eq Let_def layout_defs N_def)
qed

text \<open>
  C5, amended. The constraint bounds have length \<open>6N\<close>, lower and upper bounds are
  the same vector, and the state is pinned at the first entry of each block of \<open>N\<close>:
  x at 0, y at \<open>N\<close>, \<open>\<psi>\<close> at \<open>2N\<close>, v at \<open>3N\<close>, cte at \<open>4N\<close>, \<open>e\<psi>\<close> at \<open>5N\<close>
  (where the evaluator puts the initial state, shifted by the cost in cell 0). The
  other \<open>6(N - 1)\<close> entries are zero.
\<close>

theorem constraint_bounds_pin:
  assumes "length state = 6"
  shows
  "n_constraints = 6 * N \<and>
   x_start = 0 \<and> y_start = N \<and> psi_start = 2 * N \<and> v_start = 3 * N \<and>
   cte_start = 4 * N \<and> epsi_start = 5 * N \<and>
   constraint_bounds g state =
     (map (\<lambda>i. if i = x_start then state ! 0 else if i = y_start then state ! 1
               else if i = psi_start then state ! 2 else if i = v_start then state ! 3
               else if i = cte_start then state ! 4 else if i = epsi_start then state ! 5
               else 0) [0..<n_constraints],
      map (\<lambda>i. if i = x_start then state ! 0 else if i = y_start then state ! 1
               else if i = psi_start then state ! 2 else if i = v_start then state ! 3
               else if i = cte_start then state ! 4 else if i = epsi_start then state ! 5
               else 0) [0..<n_constraints])"
  by (simp add: constraint_bounds_eq Let_def) (simp add: layout_defs N_def)

theorem constraint_bounds_pin_witness:
  "length [1, 2, 3, 4, 5, 6 :: real] = 6 \<and>
   fst (constraint_bounds (\<lambda>i. 7) [1, 2, 3, 4, 5, 6]) ! 16 = 3 \<and>
   snd (constraint_bounds (\<lambda>i. 7) [1, 2, 3, 4, 5, 6]) ! 16 = 3 \<and>
   fst (constraint_bounds (\<lambda>i. 7) [1, 2, 3, 4, 5, 6]) ! 2 = 0"
proof -
  have len: "length [1, 2, 3, 4, 5, 6 :: real] = 6"
    by simp
  note pin = constraint_bounds_pin [OF len, of "\<lambda>i. 7"]
  then have eq: "constraint_bounds (\<lambda>i. 7) [1, 2, 3, 4, 5, 6] =
     (map (\<lambda>i. if i = x_start then [1, 2, 3, 4, 5, 6] ! 0 else if i = y_start then [1, 2, 3, 4, 5, 6] ! 1
               else if i = psi_start then [1, 2, 3, 4, 5, 6] ! 2 else if i = v_start then [1, 2, 3, 4, 5, 6] ! 3
               else if i = cte_start then [1, 2, 3, 4, 5, 6] ! 4 else if i = epsi_start then [1, 2, 3, 4, 5, 6] ! 5
               else 0) [0..<n_constraints],
      map (\<lambda>i. if i = x_start then [1, 2, 3, 4, 5, 6] ! 0 else if i = y_start then [1, 2, 3, 4, 5, 6] ! 1
               else if i = psi_start then [1, 2, 3, 4, 5, 6] ! 2 else if i = v_start then [1, 2, 3, 4, 5, 6] ! 3
               else if i = cte_start then [1, 2, 3, 4, 5, 6] ! 4 else if i = epsi_start then [1, 2, 3, 4, 5, 6] ! 5
               else 0) [0..<n_constraints])"
    by (elim conjE)
  show ?thesis
    unfolding eq by (simp add: layout_defs N_def)
qed


section \<open>The frame transform\<close>

lemma transform_waypoints_eq:
  "transform_waypoints g ptsx ptsy px py psi =
     (map (\<lambda>j. if j < length ptsx
                then (ptsx ! j - px) * cos (- psi) - (ptsy ! j - py) * sin (- psi) else g j)
        [0..<length ptsx],
      map (\<lambda>j. if j < length ptsx
                then (ptsx ! j - px) * sin (- psi) + (ptsy ! j - py) * cos (- psi) else g j)
        [0..<length ptsy])"
proof -
  have body: "transform_body ptsx ptsy px py psi =
      (\<lambda>i (lower, upper).
         (lower[i := (ptsx ! i - px) * cos (- psi) - (ptsy ! i - py) * sin (- psi)],
          upper[i := (ptsx ! i - px) * sin (- psi) + (ptsy ! i - py) * cos (- psi)]))"
    by (simp add: transform_body_def Let_def fun_eq_iff)
  show ?thesis
    unfolding transform_waypoints_def body fill_pair_loop
    by (simp add: uninit_def)
qed


lemma rotate_back:
  fixes a b c s :: real
  assumes "c * c + s * s = 1"
  shows "(a * c + b * s) * c - (b * c - a * s) * s = a"
    and "(a * c + b * s) * s + (b * c - a * s) * c = b"
proof -
  have "(a * c + b * s) * c - (b * c - a * s) * s = a * (c * c + s * s)"
    by (simp add: algebra_simps)
  also have "\<dots> = a"
    using assms by simp
  finally show "(a * c + b * s) * c - (b * c - a * s) * s = a" .
  have "(a * c + b * s) * s + (b * c - a * s) * c = b * (c * c + s * s)"
    by (simp add: algebra_simps)
  also have "\<dots> = b"
    using assms by simp
  finally show "(a * c + b * s) * s + (b * c - a * s) * c = b" .
qed

lemma cos_sin_square: "cos psi * cos psi + sin psi * sin psi = (1 :: real)"
  using sin_cos_squared_add2 [of psi] by (simp add: power2_eq_square)

text \<open>
  C8. For every vehicle pose and every waypoint, the frame transform of the control
  cycle (translate by \<open>-(px, py)\<close>, rotate by \<open>-\<psi>\<close>) followed by the inverse (rotate by
  \<open>\<psi>\<close>, translate by \<open>(px, py)\<close>) gives back the waypoint, exactly, over the reals.
\<close>

theorem frame_transform_roundtrip:
  assumes "length ptsy = length ptsx" and "i < length ptsx"
  shows "inverse_transform px py psi
           (fst (transform_waypoints g ptsx ptsy px py psi) ! i,
            snd (transform_waypoints g ptsx ptsy px py psi) ! i) = (ptsx ! i, ptsy ! i)"
  using assms
  by (simp add: transform_waypoints_eq inverse_transform_def rotate_back [OF cos_sin_square])

theorem frame_transform_roundtrip_witness:
  "length [0, 5 :: real] = length [10, 20 :: real] \<and> (1 :: nat) < length [10, 20 :: real] \<and>
   inverse_transform 1 2 (pi / 2)
     (fst (transform_waypoints (\<lambda>i. 0) [10, 20] [0, 5] 1 2 (pi / 2)) ! 1,
      snd (transform_waypoints (\<lambda>i. 0) [10, 20] [0, 5] 1 2 (pi / 2)) ! 1) = (20, 5)"
  using frame_transform_roundtrip [of "[0, 5]" "[10, 20]" 1 1 2 "pi / 2" "\<lambda>i. 0"]
  by simp

section \<open>What \<open>MPC::Solve\<close> returns\<close>

lemma extract_loop:
  "for_loop 1 hi (extract_body sx) actuations =
     actuations\<lparr>x_vals := x_vals actuations @ map (\<lambda>t. sx ! (x_start + t)) [1..<hi],
                y_vals := y_vals actuations @ map (\<lambda>t. sx ! (y_start + t)) [1..<hi]\<rparr>"
proof (induction hi)
  case 0
  then show ?case by (simp add: for_loop_empty)
next
  case (Suc hi)
  show ?case
  proof (cases "1 \<le> hi")
    case True
    then show ?thesis
      unfolding for_loop_Suc [OF True] Suc.IH by (simp add: extract_body_def Let_def)
  next
    case False
    then show ?thesis by (simp add: for_loop_empty)
  qed
qed

lemma Solve_eq:
  "Solve weights solve g state coeffs =
     (let solution = solve solver_options (initial_vars g state)
            (fst (variable_bounds g)) (snd (variable_bounds g))
            (fst (constraint_bounds g state)) (snd (constraint_bounds g state))
            (FG_eval coeffs weights)
      in \<lparr>act_d = sol_x solution ! delta_start, act_a = sol_x solution ! a_start,
          x_vals = map (\<lambda>t. sol_x solution ! (x_start + t)) [1..<N],
          y_vals = map (\<lambda>t. sol_x solution ! (y_start + t)) [1..<N]\<rparr>)"
  unfolding Solve_def Let_def extract_loop by (simp add: split_beta)

text \<open>
  C1. The claim: when the solver ends without its success status, \<open>MPC::Solve\<close> reports
  a failure and returns no unchecked values. The code at a failing run: a solver that
  stops at its iteration limit and hands back the initial point. \<open>Solve\<close> returns zero
  steering, zero throttle and a zero trajectory, and the very same value as when the
  solver reports success with that vector: nothing tells the caller of the failure.
\<close>

theorem Solve_failure_not_surfaced:
  "Solve [2, 10, 5, 3000, 100, 500, 100]
     (\<lambda>options vars vars_lowerbound vars_upperbound constraints_lowerbound
         constraints_upperbound fg_eval. \<lparr>status = maxiter_exceeded, sol_x = vars\<rparr>)
     (\<lambda>i. 0) [0, 0, 0, 10, 1, 0] [1, 0, 0, 0] =
   \<lparr>act_d = 0, act_a = 0, x_vals = replicate (N - 1) 0, y_vals = replicate (N - 1) 0\<rparr> \<and>
   Solve [2, 10, 5, 3000, 100, 500, 100]
     (\<lambda>options vars vars_lowerbound vars_upperbound constraints_lowerbound
         constraints_upperbound fg_eval. \<lparr>status = maxiter_exceeded, sol_x = vars\<rparr>)
     (\<lambda>i. 0) [0, 0, 0, 10, 1, 0] [1, 0, 0, 0] =
   Solve [2, 10, 5, 3000, 100, 500, 100]
     (\<lambda>options vars vars_lowerbound vars_upperbound constraints_lowerbound
         constraints_upperbound fg_eval. \<lparr>status = success, sol_x = vars\<rparr>)
     (\<lambda>i. 0) [0, 0, 0, 10, 1, 0] [1, 0, 0, 0]"
proof -
  let ?vars = "initial_vars (\<lambda>i. 0) [0, 0, 0, 10, 1, 0]"
  have xs: "map (\<lambda>t. ?vars ! (x_start + t)) [1..<N] = replicate (N - 1) 0"
    by (rule nth_equalityI) (simp_all add: initial_vars_eq layout_defs N_def)
  have ys: "map (\<lambda>t. ?vars ! (y_start + t)) [1..<N] = replicate (N - 1) 0"
    by (rule nth_equalityI) (simp_all add: initial_vars_eq layout_defs N_def)
  have da: "?vars ! delta_start = 0" "?vars ! a_start = 0"
    by (simp_all add: initial_vars_eq layout_defs N_def)
  show ?thesis
    unfolding Solve_eq Let_def solve_result.select_convs xs ys da by simp
qed

section \<open>The control cycle\<close>

lemma transform_waypoints_length:
  "length (fst (transform_waypoints g ptsx ptsy px py psi)) = length ptsx"
  "length (snd (transform_waypoints g ptsx ptsy px py psi)) = length ptsy"
  by (simp_all add: transform_waypoints_eq)

lemma polyfit_too_few:
  assumes "int (length xvals) < order + 1"
  shows "polyfit g qr_solve xvals yvals order = Inl AssertionFailed"
  using assms by (simp add: polyfit_def)

lemma polyfit_Inr:
  assumes "polyfit g qr_solve xvals yvals order = Inr coeffs"
  shows "length xvals = length yvals \<and> 1 \<le> order \<and> order + 1 \<le> int (length xvals) \<and>
         (\<exists>A. coeffs = qr_solve A yvals)"
  using assms by (auto simp: polyfit_def Let_def split: if_splits)

lemma polyfit_enough:
  assumes "length xvals = length yvals" and "1 \<le> order" and "order + 1 \<le> int (length xvals)"
  shows "\<exists>A. polyfit g qr_solve xvals yvals order = Inr (qr_solve A yvals)"
  using assms by (auto simp: polyfit_def Let_def)

lemma telemetry_state_unfold:
  "telemetry_state g qr_solve latency ptsx ptsy px py psi v d a =
     (case polyfit g qr_solve
             (fst (transform_waypoints g ptsx ptsy (px + v * cos psi * latency)
                    (py + v * sin psi * latency) (psi + (v / Lf) * (- d) * latency)))
             (snd (transform_waypoints g ptsx ptsy (px + v * cos psi * latency)
                    (py + v * sin psi * latency) (psi + (v / Lf) * (- d) * latency))) 3 of
        Inl e \<Rightarrow> Inl e
      | Inr coeffs \<Rightarrow>
          Inr ([0, 0, 0, v + a * latency, polyeval coeffs 0, - arctan (coeffs ! 1)], coeffs))"
  by (simp add: telemetry_state_def globalKinematic_def Let_def split_beta split: sum.splits)

lemma telemetry_state_too_few:
  assumes "length ptsx < 4"
  shows "telemetry_state g qr_solve latency ptsx ptsy px py psi v d a = Inl AssertionFailed"
  using assms
  by (simp add: telemetry_state_unfold polyfit_too_few transform_waypoints_length)

lemma telemetry_state_Inr:
  assumes "telemetry_state g qr_solve latency ptsx ptsy px py psi v d a = Inr (state_vector, coeffs)"
  shows "state_vector = [0, 0, 0, v + a * latency, polyeval coeffs 0, - arctan (coeffs ! 1)]"
  using assms by (auto simp: telemetry_state_unfold split: sum.splits)

lemma telemetry_state_enough:
  assumes "length ptsx = length ptsy" and "4 \<le> length ptsx"
  shows "\<exists>A b. telemetry_state g qr_solve latency ptsx ptsy px py psi v d a =
     Inr ([0, 0, 0, v + a * latency, polyeval (qr_solve A b) 0, - arctan (qr_solve A b ! 1)],
          qr_solve A b)"
proof -
  let ?xs = "fst (transform_waypoints g ptsx ptsy (px + v * cos psi * latency)
                    (py + v * sin psi * latency) (psi + (v / Lf) * (- d) * latency))"
  let ?ys = "snd (transform_waypoints g ptsx ptsy (px + v * cos psi * latency)
                    (py + v * sin psi * latency) (psi + (v / Lf) * (- d) * latency))"
  obtain A where "polyfit g qr_solve ?xs ?ys 3 = Inr (qr_solve A ?ys)"
    using polyfit_enough [of ?xs ?ys 3 g qr_solve] assms
    by (auto simp: transform_waypoints_length)
  then show ?thesis
    by (auto simp: telemetry_state_unfold)
qed

lemma telemetry_state_example:
  "telemetry_state (\<lambda>i. 0) (\<lambda>A b. [5, 0, 0, 0]) 0.1 [0, 1, 2, 3] [0, 0, 0, 0] 0 0 0 10 0 0 =
     Inr ([0, 0, 0, 10, 5, 0], [5, 0, 0, 0])"
proof -
  have "polyeval [5, 0, 0, 0] 0 = 5"
    by (simp add: polyeval_zero)
  then show ?thesis
    using telemetry_state_enough [of "[0, 1, 2, 3]" "[0, 0, 0, 0]" "\<lambda>i. 0" "\<lambda>A b. [5, 0, 0, 0]"
        "0.1" 0 0 0 10 0 0]
    by simp
qed

text \<open>
  C6. With fewer waypoints than the degree plus one, \<open>polyfit\<close> stops at its assertion
  and returns no fit; so does the control cycle, which fits a cubic, when it is given
  fewer than four waypoints.
\<close>

theorem polyfit_insufficient_waypoints:
  assumes "int (length xvals) < order + 1"
  shows "polyfit g qr_solve xvals yvals order = Inl AssertionFailed \<and>
    (order = 3 \<and> length yvals = length xvals \<longrightarrow>
       telemetry_state g qr_solve latency xvals yvals px py psi v d a = Inl AssertionFailed)"
  using assms by (simp add: polyfit_too_few telemetry_state_too_few)

theorem polyfit_insufficient_waypoints_witness:
  "int (length [0, 10 :: real]) < 3 + 1 \<and>
   polyfit (\<lambda>i. 0) (\<lambda>A b. [5, 0, 0, 0]) [0, 10] [1, 2] 3 = Inl AssertionFailed \<and>
   telemetry_state (\<lambda>i. 0) (\<lambda>A b. [5, 0, 0, 0]) 0.1 [0, 10] [1, 2] 0 0 0 10 0 0 = Inl AssertionFailed"
  using polyfit_insufficient_waypoints [of "[0, 10]" 3 "\<lambda>i. 0" "\<lambda>A b. [5, 0, 0, 0]" "[1, 2]"
      "0.1" 0 0 0 10 0 0]
  by simp

text \<open>
  C7. For every coefficient vector with at least one entry, \<open>polyeval coeffs 0\<close> is
  \<open>coeffs[0]\<close>; hence the cross-track error that the control cycle puts in the state
  vector (entry 4) is the constant term of the fitted polynomial.
\<close>

theorem cte_is_constant_term:
  assumes "1 \<le> length coeffs"
  shows "polyeval coeffs 0 = coeffs ! 0 \<and>
    (\<forall>g qr_solve latency ptsx ptsy px py psi v d a state_vector.
       telemetry_state g qr_solve latency ptsx ptsy px py psi v d a = Inr (state_vector, coeffs)
       \<longrightarrow> state_vector ! 4 = coeffs ! 0)"
  using assms by (auto simp: polyeval_zero dest!: telemetry_state_Inr)

theorem cte_is_constant_term_witness:
  "1 \<le> length [5, 0, 0, 0 :: real] \<and>
   telemetry_state (\<lambda>i. 0) (\<lambda>A b. [5, 0, 0, 0]) 0.1 [0, 1, 2, 3] [0, 0, 0, 0] 0 0 0 10 0 0 =
     Inr ([0, 0, 0, 10, 5, 0], [5, 0, 0, 0]) \<and>
   polyeval [5, 0, 0, 0] 0 = 5 \<and> [0, 0, 0, 10, 5, 0 :: real] ! 4 = [5, 0, 0, 0] ! 0"
  using cte_is_constant_term [of "[5, 0, 0, 0]"] telemetry_state_example
  by simp

text \<open>
  C10. In every control cycle that reaches \<open>mpc.Solve\<close>, the state vector passed to it
  has x, y and \<open>\<psi>\<close> equal to 0; only the speed, cte and \<open>e\<psi>\<close> come from the cycle's
  data. So the initial guess and the constraint bounds of \<open>Solve\<close> pin position and
  heading to zero.
\<close>

theorem state_starts_at_origin:
  assumes "telemetry_state g qr_solve latency ptsx ptsy px py psi v d a = Inr (state_vector, coeffs)"
  shows "state_vector = [0, 0, 0, v + a * latency, polyeval coeffs 0, - arctan (coeffs ! 1)] \<and>
    state_vector ! 0 = 0 \<and> state_vector ! 1 = 0 \<and> state_vector ! 2 = 0 \<and>
    initial_vars g' state_vector ! x_start = 0 \<and>
    initial_vars g' state_vector ! y_start = 0 \<and>
    initial_vars g' state_vector ! psi_start = 0 \<and>
    fst (constraint_bounds g' state_vector) ! x_start = 0 \<and>
    fst (constraint_bounds g' state_vector) ! y_start = 0 \<and>
    fst (constraint_bounds g' state_vector) ! psi_start = 0 \<and>
    snd (constraint_bounds g' state_vector) ! x_start = 0 \<and>
    snd (constraint_bounds g' state_vector) ! y_start = 0 \<and>
    snd (constraint_bounds g' state_vector) ! psi_start = 0"
proof -
  have sv: "state_vector = [0, 0, 0, v + a * latency, polyeval coeffs 0, - arctan (coeffs ! 1)]"
    using assms by (rule telemetry_state_Inr)
  show ?thesis
    unfolding sv by (simp add: initial_vars_eq constraint_bounds_eq Let_def layout_defs N_def)
qed

theorem state_starts_at_origin_witness:
  "telemetry_state (\<lambda>i. 0) (\<lambda>A b. [5, 0, 0, 0]) 0.1 [0, 1, 2, 3] [0, 0, 0, 0] 0 0 0 10 0 0 =
     Inr ([0, 0, 0, 10, 5, 0], [5, 0, 0, 0]) \<and>
   [0, 0, 0, 10, 5, 0 :: real] ! 0 = 0 \<and> [0, 0, 0, 10, 5, 0 :: real] ! 1 = 0 \<and>
   [0, 0, 0, 10, 5, 0 :: real] ! 2 = 0 \<and>
   fst (constraint_bounds (\<lambda>i. 7) [0, 0, 0, 10, 5, 0]) ! y_start = 0"
  using state_starts_at_origin [OF telemetry_state_example, of "\<lambda>i. 7"] telemetry_state_example
  by simp


end
